theory Spec2Isabelle
  imports Complex_Main "HOL-Library.Log_Nat"
begin

section \<open>JavaScript values read by the hook\<close>

text \<open>
  A JavaScript number is a binary64 value: either a finite value, given by the rational it
  denotes, or \<open>NaN\<close>. The infinities and the sign of zero are not represented: the hook
  multiplies by 0.5 and 0.75 and subtracts 1 only, which leads from a finite value to a
  finite value. Strings are sequences of code units below 256.
\<close>

datatype jsnum = Num rat | NaN

subsection \<open>Rounding to binary64\<close>

text \<open>
  The exponent of the power of two at or below the magnitude of a non-zero rational: the
  integer \<open>e\<close> with \<open>2 powi e \<le> \<bar>x\<bar> < 2 powi (e + 1)\<close>.
\<close>

definition binade :: "rat \<Rightarrow> int" where
  "binade x =
     (if 1 \<le> \<bar>x\<bar> then bitlen \<lfloor>\<bar>x\<bar>\<rfloor> - 1
      else - bitlen (\<lceil>1 / \<bar>x\<bar>\<rceil> - 1))"

text \<open>Rounding to the nearest integer, a tie going to the even one.\<close>

definition round_half_even :: "rat \<Rightarrow> int" where
  "round_half_even r =
     (if r - of_int \<lfloor>r\<rfloor> < 1 / 2 then \<lfloor>r\<rfloor>
      else if 1 / 2 < r - of_int \<lfloor>r\<rfloor> then \<lfloor>r\<rfloor> + 1
      else if even \<lfloor>r\<rfloor> then \<lfloor>r\<rfloor> else \<lfloor>r\<rfloor> + 1)"

text \<open>
  The spacing of binary64 values around \<open>x\<close>: 52 binary places below the leading one,
  and never finer than the subnormal spacing.
\<close>

definition quantum :: "rat \<Rightarrow> rat" where
  "quantum x = 2 powi (max (binade x) (- 1022) - 52)"

text \<open>
  The binary64 value nearest to the exact result of an operation, ties to even, as every
  arithmetic operator of the language delivers it. The operands are taken to be binary64
  values; a result beyond the largest finite value, which the language makes infinite, is
  not represented.
\<close>

definition round_binary64 :: "rat \<Rightarrow> rat" where
  "round_binary64 x =
     (if x = 0 then 0 else of_int (round_half_even (x / quantum x)) * quantum x)"

subsection \<open>Operators\<close>

text \<open>\<open>a === b\<close> on two numbers: \<open>NaN\<close> equals nothing, itself included.\<close>

fun strict_eq :: "jsnum \<Rightarrow> jsnum \<Rightarrow> bool" where
  "strict_eq (Num a) (Num b) = (a = b)"
| "strict_eq _ _ = False"

text \<open>\<open>a === b\<close> where \<open>a\<close> may be \<open>undefined\<close> or \<open>null\<close> (\<open>None\<close>) and \<open>b\<close> is a number.\<close>

fun opt_strict_eq :: "jsnum option \<Rightarrow> jsnum \<Rightarrow> bool" where
  "opt_strict_eq None b = False"
| "opt_strict_eq (Some a) b = strict_eq a b"

text \<open>Truthiness of a number: \<open>0\<close> and \<open>NaN\<close> are falsy; \<open>undefined\<close> is falsy.\<close>

fun truthy :: "jsnum \<Rightarrow> bool" where
  "truthy (Num a) = (a \<noteq> 0)"
| "truthy NaN = False"

fun opt_truthy :: "jsnum option \<Rightarrow> bool" where
  "opt_truthy None = False"
| "opt_truthy (Some a) = truthy a"

text \<open>Truthiness of a string: only the empty string is falsy.\<close>

definition str_truthy :: "string \<Rightarrow> bool" where
  "str_truthy s = (s \<noteq> [])"

text \<open>The floor of a binary64 value is a binary64 value: \<open>Math.floor\<close> does not round.\<close>

fun Math_floor :: "jsnum \<Rightarrow> jsnum" where
  "Math_floor (Num a) = Num (of_int \<lfloor>a\<rfloor>)"
| "Math_floor NaN = NaN"

text \<open>\<open>a * b\<close> and \<open>a - b\<close>: the exact result, rounded to binary64.\<close>

fun js_times :: "jsnum \<Rightarrow> jsnum \<Rightarrow> jsnum" where
  "js_times (Num a) (Num b) = Num (round_binary64 (a * b))"
| "js_times _ _ = NaN"

fun js_minus :: "jsnum \<Rightarrow> jsnum \<Rightarrow> jsnum" where
  "js_minus (Num a) (Num b) = Num (round_binary64 (a - b))"
| "js_minus _ _ = NaN"

subsection \<open>\<open>parseInt\<close> with no radix argument\<close>

text \<open>
  The built-in skips leading white space, reads an optional sign, switches to radix 16
  after a \<open>0x\<close> or \<open>0X\<close> prefix, and then reads the longest run of digits of the radix.
  With no digit to read the result is \<open>NaN\<close>; whatever follows the digits is dropped.
  The integer read is kept as it is written; the built-in approximates one of more than
  53 bits, and the handler only compares the result with the two indices.
\<close>

definition is_StrWhiteSpaceChar :: "char \<Rightarrow> bool" where
  "is_StrWhiteSpaceChar c = ((of_char c :: nat) \<in> {9, 10, 11, 12, 13, 32, 160})"

definition digit_value :: "char \<Rightarrow> nat option" where
  "digit_value c =
     (let n = (of_char c :: nat) in
      if 48 \<le> n \<and> n \<le> 57 then Some (n - 48)
      else if 97 \<le> n \<and> n \<le> 122 then Some (n - 87)
      else if 65 \<le> n \<and> n \<le> 90 then Some (n - 55)
      else None)"

definition radix_digit :: "nat \<Rightarrow> char \<Rightarrow> bool" where
  "radix_digit R c = (case digit_value c of None \<Rightarrow> False | Some d \<Rightarrow> d < R)"

fun digits_value :: "nat \<Rightarrow> int \<Rightarrow> string \<Rightarrow> int" where
  "digits_value R acc [] = acc"
| "digits_value R acc (c # cs) =
     digits_value R (acc * int R + (case digit_value c of None \<Rightarrow> 0 | Some d \<Rightarrow> int d)) cs"

definition strip_sign :: "string \<Rightarrow> int \<times> string" where
  "strip_sign s =
     (case s of
        [] \<Rightarrow> (1, s)
      | c # r \<Rightarrow> if c = CHR ''-'' then (- 1, r) else if c = CHR ''+'' then (1, r) else (1, s))"

definition strip_prefix :: "string \<Rightarrow> nat \<times> string" where
  "strip_prefix s =
     (case s of
        c # x # r \<Rightarrow>
          if c = CHR ''0'' \<and> (x = CHR ''x'' \<or> x = CHR ''X'') then (16, r) else (10, s)
      | _ \<Rightarrow> (10, s))"

definition parseInt :: "string \<Rightarrow> jsnum" where
  "parseInt inputString =
     (let (sign, s) = strip_sign (dropWhile is_StrWhiteSpaceChar inputString);
          (R, s') = strip_prefix s;
          Z = takeWhile (radix_digit R) s'
      in if Z = [] then NaN else Num (of_int (sign * digits_value R 0 Z)))"

text \<open>
  \<open>getAttribute\<close> yields \<open>null\<close> for a missing attribute; \<open>parseInt\<close> converts its argument
  to a string first, so \<open>null\<close> is read as the text \<open>null\<close>.
\<close>

definition ToString_attr :: "string option \<Rightarrow> string" where
  "ToString_attr a = (case a of None \<Rightarrow> ''null'' | Some s \<Rightarrow> s)"

section \<open>Trigger-index resolution\<close>

datatype TriggerPoint = TP50 | TP75 | TP100

definition tp_string :: "TriggerPoint \<Rightarrow> string" where
  "tp_string t = (case t of TP50 \<Rightarrow> ''50%'' | TP75 \<Rightarrow> ''75%'' | TP100 \<Rightarrow> ''100%'')"

definition getTriggerPointValue :: "TriggerPoint \<Rightarrow> jsnum \<Rightarrow> jsnum" where
  "getTriggerPointValue triggerPoint numberOfItems =
     (case triggerPoint of
        TP50 \<Rightarrow> Math_floor (js_times numberOfItems (Num (1 / 2)))
      | TP75 \<Rightarrow> Math_floor (js_times numberOfItems (Num (3 / 4)))
      | TP100 \<Rightarrow> js_minus numberOfItems (Num 1))"


section \<open>The hook's configuration and what it remembers between renders\<close>

text \<open>
  \<open>fetchNext\<close> is an opaque callback; it is represented by its identity, which is all the
  hook looks at (it is a dependency of \<open>useCallback\<close>), and calling it is recorded in the
  state. An optional field that was not supplied is \<open>None\<close>.
\<close>

record FetchOnScrollProps =
  fetchNext :: nat
  fetchMore :: "bool option"
  numberOfItems :: jsnum
  threshold :: "jsnum option"
  rootMargin :: "string option"
  triggerPoint :: "TriggerPoint option"
  triggerIndex :: "jsnum option"

text \<open>The two \<open>useRef\<close> cells that hold observers.\<close>

datatype observer_ref = ItemObserver | FallbackObserver

text \<open>
  The closure \<open>fetchOnScroll\<close>: the values it captures. Its dependency list names every
  one of them.
\<close>

record handler =
  h_fetchNext :: nat
  h_fetchMore :: bool
  h_itemRefIndex :: jsnum
  h_fallBackRefIndex :: jsnum

text \<open>
  The closure returned by \<open>useIntersectionObserver\<close>: it captures the ref cell, the
  handler, and \<open>threshold\<close> and \<open>rootMargin\<close> of the render that created it.
\<close>

record attachment =
  a_observerRef :: observer_ref
  a_iOCallback :: handler
  a_threshold :: "jsnum option"
  a_rootMargin :: "string option"

text \<open>
  \<open>useMemo\<close> and \<open>useCallback\<close>: the value of the previous render is kept when the
  dependencies are unchanged; otherwise the fresh value replaces it.
\<close>

definition useMemo :: "('d \<times> 'v) option \<Rightarrow> 'd \<Rightarrow> 'v \<Rightarrow> 'v \<times> ('d \<times> 'v) option" where
  "useMemo prev deps fresh =
     (case prev of
        None \<Rightarrow> (fresh, Some (deps, fresh))
      | Some (d, v) \<Rightarrow> if d = deps then (v, prev) else (fresh, Some (deps, fresh)))"

record hook_memo =
  memo_itemRefIndex :: "((jsnum \<times> TriggerPoint) \<times> jsnum) option"
  memo_fetchOnScroll :: "((nat \<times> bool \<times> jsnum \<times> jsnum) \<times> handler) option"
  memo_itemRef :: "((observer_ref \<times> handler) \<times> attachment) option"
  memo_fallbackRef :: "((observer_ref \<times> handler) \<times> attachment) option"

definition first_render :: hook_memo where
  "first_render =
     \<lparr>memo_itemRefIndex = None, memo_fetchOnScroll = None,
      memo_itemRef = None, memo_fallbackRef = None\<rparr>"

record hook_result =
  itemRef :: attachment
  fallbackRef :: attachment
  itemRefIndex :: jsnum
  fallBackRefIndex :: jsnum

section \<open>The body of \<open>useFetchOnScroll\<close>\<close>

definition fetchMore_default :: "FetchOnScrollProps \<Rightarrow> bool" where
  "fetchMore_default p = (case fetchMore p of None \<Rightarrow> True | Some b \<Rightarrow> b)"

definition triggerPoint_default :: "FetchOnScrollProps \<Rightarrow> TriggerPoint" where
  "triggerPoint_default p = (case triggerPoint p of None \<Rightarrow> TP100 | Some t \<Rightarrow> t)"

definition fallBackRefIndex_of :: "FetchOnScrollProps \<Rightarrow> jsnum" where
  "fallBackRefIndex_of p = js_minus (numberOfItems p) (Num 1)"

text \<open>The ref cell behind the primary slot: the fallback's cell when the test of the hook holds.\<close>

definition shares_observer :: "FetchOnScrollProps \<Rightarrow> bool" where
  "shares_observer p =
     (triggerPoint_default p = TP100
      \<or> opt_strict_eq (triggerIndex p) (fallBackRefIndex_of p)
      \<or> (\<not> str_truthy (tp_string (triggerPoint_default p)) \<and> \<not> opt_truthy (triggerIndex p)))"

definition ItemObserver_of :: "FetchOnScrollProps \<Rightarrow> observer_ref" where
  "ItemObserver_of p = (if shares_observer p then FallbackObserver else ItemObserver)"

definition useIntersectionObserver ::
  "FetchOnScrollProps \<Rightarrow> ((observer_ref \<times> handler) \<times> attachment) option \<Rightarrow>
   observer_ref \<Rightarrow> handler \<Rightarrow> attachment \<times> ((observer_ref \<times> handler) \<times> attachment) option" where
  "useIntersectionObserver p prev observerRef iOCallback =
     useMemo prev (observerRef, iOCallback)
       \<lparr>a_observerRef = observerRef, a_iOCallback = iOCallback,
        a_threshold = threshold p, a_rootMargin = rootMargin p\<rparr>"

definition useFetchOnScroll :: "FetchOnScrollProps \<Rightarrow> hook_memo \<Rightarrow> hook_result \<times> hook_memo" where
  "useFetchOnScroll p m =
     (let fallBackRefIndex' = fallBackRefIndex_of p;
          (memoised, m1) =
             useMemo (memo_itemRefIndex m) (numberOfItems p, triggerPoint_default p)
               (getTriggerPointValue (triggerPoint_default p) (numberOfItems p));
          itemRefIndex' =
             (case triggerIndex p of
                None \<Rightarrow> memoised
              | Some t \<Rightarrow> if truthy t then Math_floor t else memoised);
          (fetchOnScroll', m2) =
             useMemo (memo_fetchOnScroll m)
               (fetchNext p, fetchMore_default p, itemRefIndex', fallBackRefIndex')
               \<lparr>h_fetchNext = fetchNext p, h_fetchMore = fetchMore_default p,
                h_itemRefIndex = itemRefIndex', h_fallBackRefIndex = fallBackRefIndex'\<rparr>;
          (itemRef', m3) =
             useIntersectionObserver p (memo_itemRef m) (ItemObserver_of p) fetchOnScroll';
          (fallbackRef', m4) =
             useIntersectionObserver p (memo_fallbackRef m) FallbackObserver fetchOnScroll'
      in (\<lparr>itemRef = itemRef', fallbackRef = fallbackRef',
           itemRefIndex = itemRefIndex', fallBackRefIndex = fallBackRefIndex'\<rparr>,
          \<lparr>memo_itemRefIndex = m1, memo_fetchOnScroll = m2,
           memo_itemRef = m3, memo_fallbackRef = m4\<rparr>))"

text \<open>The memo left by a history of renders, oldest first, of one mounted hook.\<close>

fun renders :: "FetchOnScrollProps list \<Rightarrow> hook_memo \<Rightarrow> hook_memo" where
  "renders [] m = m"
| "renders (p # ps) m = renders ps (snd (useFetchOnScroll p m))"

section \<open>Observers and the state the callbacks act on\<close>

text \<open>
  An \<open>IntersectionObserver\<close> keeps the callback and options it was constructed with and
  the elements it watches: \<open>observe\<close> adds one, \<open>disconnect\<close> drops them all. Elements are
  named by numbers. Observers live in a store, addressed by position; the store also keeps
  the order in which observers were disconnected, constructed and told to observe.
  Constructing an observer is taken to succeed: the options are ones the platform accepts.
\<close>

record observer =
  ob_callback :: handler
  ob_threshold :: "jsnum option"
  ob_rootMargin :: "string option"
  ob_observed :: "nat list"

datatype effect = Disconnect nat | Construct nat | Observe nat nat

record hook_state =
  observers :: "observer list"
  ItemObserver_current :: "nat option"
  fallbackObserver_current :: "nat option"
  lastItemIndex_current :: "jsnum option"
  fetchNext_calls :: "nat list"
  effects :: "effect list"

definition mounted :: hook_state where
  "mounted =
     \<lparr>observers = [], ItemObserver_current = None, fallbackObserver_current = None,
      lastItemIndex_current = None, fetchNext_calls = [], effects = []\<rparr>"

definition current :: "observer_ref \<Rightarrow> hook_state \<Rightarrow> nat option" where
  "current r st = (case r of ItemObserver \<Rightarrow> ItemObserver_current st
                           | FallbackObserver \<Rightarrow> fallbackObserver_current st)"

definition set_current :: "observer_ref \<Rightarrow> nat option \<Rightarrow> hook_state \<Rightarrow> hook_state" where
  "set_current r v st = (case r of ItemObserver \<Rightarrow> st\<lparr>ItemObserver_current := v\<rparr>
                                 | FallbackObserver \<Rightarrow> st\<lparr>fallbackObserver_current := v\<rparr>)"

definition disconnect :: "nat \<Rightarrow> hook_state \<Rightarrow> hook_state" where
  "disconnect a st =
     st\<lparr>observers := (observers st)[a := (observers st ! a)\<lparr>ob_observed := []\<rparr>],
        effects := effects st @ [Disconnect a]\<rparr>"

definition new_IntersectionObserver ::
  "handler \<Rightarrow> jsnum option \<Rightarrow> string option \<Rightarrow> hook_state \<Rightarrow> nat \<times> hook_state" where
  "new_IntersectionObserver cb th rm st =
     (length (observers st),
      st\<lparr>observers := observers st @
            [\<lparr>ob_callback = cb, ob_threshold = th, ob_rootMargin = rm, ob_observed = []\<rparr>],
         effects := effects st @ [Construct (length (observers st))]\<rparr>)"

definition observe :: "nat \<Rightarrow> nat \<Rightarrow> hook_state \<Rightarrow> hook_state" where
  "observe a node st =
     st\<lparr>observers :=
          (observers st)[a := (observers st ! a)\<lparr>ob_observed := ob_observed (observers st ! a) @ [node]\<rparr>],
        effects := effects st @ [Observe a node]\<rparr>"

text \<open>The clean-up function that an attachment returns: it closes over the ref cell only.\<close>

definition cleanup :: "observer_ref \<Rightarrow> hook_state \<Rightarrow> hook_state" where
  "cleanup observerRef st =
     (case current observerRef st of None \<Rightarrow> st | Some a \<Rightarrow> disconnect a st)"

text \<open>
  The attachment itself, called with an element or with \<open>null\<close> (\<open>None\<close>). It returns the
  clean-up (named by the ref cell it closes over), or nothing for \<open>null\<close>.
\<close>

definition attach :: "attachment \<Rightarrow> nat option \<Rightarrow> hook_state \<Rightarrow> observer_ref option \<times> hook_state" where
  "attach h node st =
     (case node of
        None \<Rightarrow> (None, st)
      | Some n \<Rightarrow>
          (let st1 = (case current (a_observerRef h) st of
                        None \<Rightarrow> st
                      | Some a \<Rightarrow> disconnect a st);
               (ob, st2) = new_IntersectionObserver (a_iOCallback h) (a_threshold h) (a_rootMargin h) st1;
               st3 = set_current (a_observerRef h) (Some ob) st2;
               st4 = observe ob n st3
           in (Some (a_observerRef h), st4)))"

section \<open>The intersection handler\<close>

record entry =
  isIntersecting :: bool
  data_id :: "string option"

definition call_fetchNext :: "handler \<Rightarrow> hook_state \<Rightarrow> hook_state" where
  "call_fetchNext h st = st\<lparr>fetchNext_calls := fetchNext_calls st @ [h_fetchNext h]\<rparr>"

definition fetchOnScroll :: "handler \<Rightarrow> entry list \<Rightarrow> hook_state \<Rightarrow> hook_state" where
  "fetchOnScroll h entries st =
     (case entries of
        [] \<Rightarrow> st
      | e # _ \<Rightarrow>
          if isIntersecting e \<and> h_fetchMore h then
            (let entryId = parseInt (ToString_attr (data_id e));
                 st1 = (if strict_eq entryId (h_itemRefIndex h)
                        then call_fetchNext h (st\<lparr>lastItemIndex_current := Some entryId\<rparr>)
                        else st)
             in if strict_eq entryId (h_fallBackRefIndex h)
                   \<and> \<not> opt_strict_eq (lastItemIndex_current st1) (h_itemRefIndex h)
                then call_fetchNext h st1
                else st1)
          else st)"

text \<open>What a mounted hook goes through: calls of attachments, of clean-ups and of handlers.\<close>

datatype action =
    Attach attachment "nat option"
  | Cleanup observer_ref
  | Intersect handler "entry list"

fun act :: "action \<Rightarrow> hook_state \<Rightarrow> hook_state" where
  "act (Attach h node) st = snd (attach h node st)"
| "act (Cleanup r) st = cleanup r st"
| "act (Intersect h es) st = fetchOnScroll h es st"

fun run :: "action list \<Rightarrow> hook_state \<Rightarrow> hook_state" where
  "run [] st = st"
| "run (a # as) st = run as (act a st)"

section \<open>Notions used to state the properties\<close>

text \<open>The value the handler compares: the parsed \<open>data-id\<close> of an entry's target.\<close>

definition entryId_of :: "entry \<Rightarrow> jsnum" where
  "entryId_of e = parseInt (ToString_attr (data_id e))"

text \<open>
  After leading white space and an optional sign the text is empty or starts with
  something other than a decimal digit.
\<close>

definition no_leading_digit :: "string \<Rightarrow> bool" where
  "no_leading_digit s =
     (case snd (strip_sign (dropWhile is_StrWhiteSpaceChar s)) of
        [] \<Rightarrow> True
      | c # _ \<Rightarrow> \<not> radix_digit 10 c)"

text \<open>The index the body of the hook resolves, with the memo left out.\<close>

definition resolved_index :: "FetchOnScrollProps \<Rightarrow> jsnum" where
  "resolved_index p =
     (case triggerIndex p of
        None \<Rightarrow> getTriggerPointValue (triggerPoint_default p) (numberOfItems p)
      | Some t \<Rightarrow> if truthy t then Math_floor t
                  else getTriggerPointValue (triggerPoint_default p) (numberOfItems p))"

text \<open>The handler a render builds from its configuration.\<close>

definition handler_of :: "FetchOnScrollProps \<Rightarrow> handler" where
  "handler_of p =
     \<lparr>h_fetchNext = fetchNext p, h_fetchMore = fetchMore_default p,
      h_itemRefIndex = resolved_index p, h_fallBackRefIndex = fallBackRefIndex_of p\<rparr>"

text \<open>
  What every memo left by renders satisfies: a kept value is the one its dependencies
  determine, as far as they determine it.
\<close>

definition memo_ok :: "hook_memo \<Rightarrow> bool" where
  "memo_ok m =
     ((case memo_itemRefIndex m of None \<Rightarrow> True
       | Some ((n, tp), v) \<Rightarrow> v = getTriggerPointValue tp n)
      \<and> (case memo_fetchOnScroll m of None \<Rightarrow> True
         | Some ((f, fm, i, fb), h) \<Rightarrow>
             h = \<lparr>h_fetchNext = f, h_fetchMore = fm, h_itemRefIndex = i, h_fallBackRefIndex = fb\<rparr>)
      \<and> (case memo_itemRef m of None \<Rightarrow> True
         | Some ((r, cb), a) \<Rightarrow> a_observerRef a = r \<and> a_iOCallback a = cb)
      \<and> (case memo_fallbackRef m of None \<Rightarrow> True
         | Some ((r, cb), a) \<Rightarrow> a_observerRef a = r \<and> a_iOCallback a = cb))"

text \<open>
  \<open>useCallback\<close> builds the attachment anew in this render: there is no previous one, or
  its dependencies (ref cell and handler) differ.
\<close>

definition created_now ::
  "((observer_ref \<times> handler) \<times> attachment) option \<Rightarrow> observer_ref \<Rightarrow> handler \<Rightarrow> bool" where
  "created_now prev r h = (case prev of None \<Rightarrow> True | Some (d, v) \<Rightarrow> d \<noteq> (r, h))"



text \<open>Every ref cell that holds an observer holds one of the store.\<close>

definition refs_valid :: "hook_state \<Rightarrow> bool" where
  "refs_valid st =
     ((case ItemObserver_current st of None \<Rightarrow> True | Some a \<Rightarrow> a < length (observers st))
      \<and> (case fallbackObserver_current st of None \<Rightarrow> True | Some a \<Rightarrow> a < length (observers st)))"

text \<open>
  No observer watches two elements, and an observer that watches one is the observer its
  ref cell currently holds: a cell holds one observer, so a slot has at most one watch.
\<close>

definition one_watch_per_slot :: "hook_state \<Rightarrow> bool" where
  "one_watch_per_slot st =
     (\<forall>a < length (observers st).
        length (ob_observed (observers st ! a)) \<le> 1
        \<and> (ob_observed (observers st ! a) \<noteq> [] \<longrightarrow>
             ItemObserver_current st = Some a \<or> fallbackObserver_current st = Some a))"

text \<open>The configuration of the test suite: ten items, everything else left to its default.\<close>

definition props10 :: FetchOnScrollProps where
  "props10 =
     \<lparr>fetchNext = 0, fetchMore = Some True, numberOfItems = Num 10, threshold = None,
      rootMargin = None, triggerPoint = None, triggerIndex = None\<rparr>"

section \<open>Renders, observers and the handler: basic facts\<close>

lemma memo_ok_first: "memo_ok first_render"
  by (simp add: memo_ok_def first_render_def)

lemma useMemo_fun:
  "(case prev of None \<Rightarrow> True | Some (d, v) \<Rightarrow> v = f d) \<Longrightarrow> useMemo prev deps (f deps) = (f deps, Some (deps, f deps))"
  by (auto simp: useMemo_def split: option.splits)

lemma memoised_index:
  assumes "memo_ok m"
  shows "useMemo (memo_itemRefIndex m) (numberOfItems p, triggerPoint_default p)
           (getTriggerPointValue (triggerPoint_default p) (numberOfItems p))
         = (getTriggerPointValue (triggerPoint_default p) (numberOfItems p),
            Some ((numberOfItems p, triggerPoint_default p),
                  getTriggerPointValue (triggerPoint_default p) (numberOfItems p)))"
  using assms useMemo_fun [where prev = "memo_itemRefIndex m" and f = "\<lambda>(n, tp). getTriggerPointValue tp n" and deps = "(numberOfItems p, triggerPoint_default p)"]
  by (simp add: memo_ok_def split: option.splits prod.splits)

lemma memoised_handler:
  assumes "memo_ok m"
  shows "useMemo (memo_fetchOnScroll m) (f, fm, i, fb)
           \<lparr>h_fetchNext = f, h_fetchMore = fm, h_itemRefIndex = i, h_fallBackRefIndex = fb\<rparr>
         = (\<lparr>h_fetchNext = f, h_fetchMore = fm, h_itemRefIndex = i, h_fallBackRefIndex = fb\<rparr>,
            Some ((f, fm, i, fb),
                  \<lparr>h_fetchNext = f, h_fetchMore = fm, h_itemRefIndex = i, h_fallBackRefIndex = fb\<rparr>))"
  using assms useMemo_fun [where prev = "memo_fetchOnScroll m" and f = "\<lambda>(f, fm, i, fb). \<lparr>h_fetchNext = f, h_fetchMore = fm, h_itemRefIndex = i, h_fallBackRefIndex = fb\<rparr>" and deps = "(f, fm, i, fb)"]
  by (simp add: memo_ok_def split: option.splits prod.splits)

lemma render_unfold:
  assumes "memo_ok m"
  shows "useFetchOnScroll p m =
     (\<lparr>itemRef = fst (useIntersectionObserver p (memo_itemRef m) (ItemObserver_of p) (handler_of p)),
       fallbackRef = fst (useIntersectionObserver p (memo_fallbackRef m) FallbackObserver (handler_of p)),
       itemRefIndex = resolved_index p, fallBackRefIndex = fallBackRefIndex_of p\<rparr>,
      \<lparr>memo_itemRefIndex = Some ((numberOfItems p, triggerPoint_default p),
                  getTriggerPointValue (triggerPoint_default p) (numberOfItems p)),
       memo_fetchOnScroll = Some ((fetchNext p, fetchMore_default p, resolved_index p, fallBackRefIndex_of p), handler_of p),
       memo_itemRef = snd (useIntersectionObserver p (memo_itemRef m) (ItemObserver_of p) (handler_of p)),
       memo_fallbackRef = snd (useIntersectionObserver p (memo_fallbackRef m) FallbackObserver (handler_of p))\<rparr>)"
proof -
  have idx: "(case triggerIndex p of
                None \<Rightarrow> getTriggerPointValue (triggerPoint_default p) (numberOfItems p)
              | Some t \<Rightarrow> if truthy t then Math_floor t
                  else getTriggerPointValue (triggerPoint_default p) (numberOfItems p)) = resolved_index p"
    by (simp add: resolved_index_def)
  show ?thesis
    unfolding useFetchOnScroll_def Let_def memoised_index [OF assms] prod.case idx
      memoised_handler [OF assms]
    by (simp add: handler_of_def case_prod_beta)
qed

lemma useIntersectionObserver_refs:
  assumes "case prev of None \<Rightarrow> True | Some ((r, cb), a) \<Rightarrow> a_observerRef a = r \<and> a_iOCallback a = cb"
  shows "a_observerRef (fst (useIntersectionObserver p prev r h)) = r"
    and "a_iOCallback (fst (useIntersectionObserver p prev r h)) = h"
    and "case snd (useIntersectionObserver p prev r h) of None \<Rightarrow> True
         | Some ((r, cb), a) \<Rightarrow> a_observerRef a = r \<and> a_iOCallback a = cb"
  using assms
  by (auto simp: useIntersectionObserver_def useMemo_def split: option.splits)

lemma render_memo_ok:
  assumes "memo_ok m"
  shows "memo_ok (snd (useFetchOnScroll p m))"
proof -
  have a: "case memo_itemRef m of None \<Rightarrow> True | Some ((r, cb), a) \<Rightarrow> a_observerRef a = r \<and> a_iOCallback a = cb"
    and b: "case memo_fallbackRef m of None \<Rightarrow> True | Some ((r, cb), a) \<Rightarrow> a_observerRef a = r \<and> a_iOCallback a = cb"
    using assms by (simp_all add: memo_ok_def)
  show ?thesis
    unfolding render_unfold [OF assms]
    using useIntersectionObserver_refs(3) [OF a] useIntersectionObserver_refs(3) [OF b]
    by (simp add: memo_ok_def handler_of_def)
qed

lemma renders_memo_ok: "memo_ok m \<Longrightarrow> memo_ok (renders ps m)"
  by (induction ps arbitrary: m) (simp_all add: render_memo_ok)

lemma history_memo_ok: "memo_ok (renders ps first_render)"
  by (simp add: renders_memo_ok memo_ok_first)

lemma render_result:
  assumes "memo_ok m"
  shows "itemRefIndex (fst (useFetchOnScroll p m)) = resolved_index p"
    and "fallBackRefIndex (fst (useFetchOnScroll p m)) = fallBackRefIndex_of p"
    and "a_iOCallback (itemRef (fst (useFetchOnScroll p m))) = handler_of p"
    and "a_iOCallback (fallbackRef (fst (useFetchOnScroll p m))) = handler_of p"
    and "a_observerRef (itemRef (fst (useFetchOnScroll p m))) = ItemObserver_of p"
    and "a_observerRef (fallbackRef (fst (useFetchOnScroll p m))) = FallbackObserver"
proof -
  have a: "case memo_itemRef m of None \<Rightarrow> True | Some ((r, cb), a) \<Rightarrow> a_observerRef a = r \<and> a_iOCallback a = cb"
    and b: "case memo_fallbackRef m of None \<Rightarrow> True | Some ((r, cb), a) \<Rightarrow> a_observerRef a = r \<and> a_iOCallback a = cb"
    using assms by (simp_all add: memo_ok_def)
  show "itemRefIndex (fst (useFetchOnScroll p m)) = resolved_index p"
    and "fallBackRefIndex (fst (useFetchOnScroll p m)) = fallBackRefIndex_of p"
    by (simp_all add: render_unfold [OF assms])
  show "a_iOCallback (itemRef (fst (useFetchOnScroll p m))) = handler_of p"
    and "a_observerRef (itemRef (fst (useFetchOnScroll p m))) = ItemObserver_of p"
    using useIntersectionObserver_refs(1,2) [OF a] by (simp_all add: render_unfold [OF assms])
  show "a_iOCallback (fallbackRef (fst (useFetchOnScroll p m))) = handler_of p"
    and "a_observerRef (fallbackRef (fst (useFetchOnScroll p m))) = FallbackObserver"
    using useIntersectionObserver_refs(1,2) [OF b] by (simp_all add: render_unfold [OF assms])
qed


lemma binade_upper:
  assumes "x \<noteq> 0"
  shows "\<bar>x\<bar> < 2 powi (binade x + 1)"
proof (cases "1 \<le> \<bar>x\<bar>")
  case True
  then have pos: "0 < \<lfloor>\<bar>x\<bar>\<rfloor>" by linarith
  from bitlen_bounds [OF pos] have "\<lfloor>\<bar>x\<bar>\<rfloor> < (2::int) ^ nat (bitlen \<lfloor>\<bar>x\<bar>\<rfloor>)" ..
  then have "\<lfloor>\<bar>x\<bar>\<rfloor> + 1 \<le> (2::int) ^ nat (bitlen \<lfloor>\<bar>x\<bar>\<rfloor>)" by simp
  then have "(of_int (\<lfloor>\<bar>x\<bar>\<rfloor> + 1) :: rat) \<le> of_int ((2::int) ^ nat (bitlen \<lfloor>\<bar>x\<bar>\<rfloor>))"
    by (simp only: of_int_le_iff)
  moreover have "\<bar>x\<bar> < of_int (\<lfloor>\<bar>x\<bar>\<rfloor> + 1)" by linarith
  ultimately have "\<bar>x\<bar> < (2::rat) ^ nat (bitlen \<lfloor>\<bar>x\<bar>\<rfloor>)" by simp
  then show ?thesis
    using True bitlen_nonneg [of "\<lfloor>\<bar>x\<bar>\<rfloor>"] by (simp add: binade_def power_int_nonneg_exp)
next
  case False
  let ?y = "1 / \<bar>x\<bar>"
  let ?b = "bitlen (\<lceil>?y\<rceil> - 1)"
  from False assms have y: "1 < ?y" by simp
  then have pos: "0 < \<lceil>?y\<rceil> - 1" by linarith
  have nn: "0 \<le> ?b - 1"
    using pos bitlen_eq_zero_iff [of "\<lceil>?y\<rceil> - 1"] bitlen_nonneg [of "\<lceil>?y\<rceil> - 1"] by linarith
  from bitlen_bounds [OF pos] have "(2::int) ^ nat (?b - 1) \<le> \<lceil>?y\<rceil> - 1" ..
  then have "(of_int ((2::int) ^ nat (?b - 1)) :: rat) \<le> of_int (\<lceil>?y\<rceil> - 1)"
    by (simp only: of_int_le_iff)
  moreover have "(of_int (\<lceil>?y\<rceil> - 1) :: rat) < ?y" by linarith
  ultimately have "(2::rat) ^ nat (?b - 1) < ?y" by simp
  then have "2 powi (?b - 1) < ?y"
    using nn by (simp add: power_int_nonneg_exp)
  then have "\<bar>x\<bar> < 1 / (2 powi (?b - 1))"
    using assms by (simp add: field_simps)
  also have "\<dots> = 2 powi (- (?b - 1))"
    by (rule power_int_minus_divide [symmetric])
  also have "- (?b - 1) = - ?b + 1"
    by simp
  finally show ?thesis
    using False by (simp only: binade_def if_False)
qed








lemma round_binary64_examples:
  "round_binary64 9 = 9" "round_binary64 5 = 5" "round_binary64 (15 / 2) = 15 / 2"
  "round_binary64 1 = 1"
  by code_simp+

lemma floor_rat_numeral: "\<lfloor>numeral a / numeral b :: rat\<rfloor> = numeral a div numeral b"
  using floor_divide_of_int_eq [of "numeral a" "numeral b", where ?'a = rat] by simp




lemma attach_null: "attach h None st = (None, st)"
  by (simp add: attach_def)

lemma attach_observers:
  "observers (snd (attach h (Some n) st)) =
     (case current (a_observerRef h) st of
        None \<Rightarrow> observers st
      | Some a \<Rightarrow> (observers st)[a := (observers st ! a)\<lparr>ob_observed := []\<rparr>])
     @ [\<lparr>ob_callback = a_iOCallback h, ob_threshold = a_threshold h,
         ob_rootMargin = a_rootMargin h, ob_observed = [n]\<rparr>]"
  by (cases "a_observerRef h"; cases "current (a_observerRef h) st")
     (simp_all add: attach_def new_IntersectionObserver_def observe_def set_current_def
       disconnect_def current_def)

lemma attach_current:
  "current r (snd (attach h (Some n) st)) =
     (if r = a_observerRef h then Some (length (observers st)) else current r st)"
  by (cases "a_observerRef h"; cases r; cases "current (a_observerRef h) st")
     (simp_all add: attach_def new_IntersectionObserver_def observe_def set_current_def
       disconnect_def current_def)

lemma attach_effects_eq:
  "effects (snd (attach h (Some n) st)) =
     effects st
     @ (case current (a_observerRef h) st of None \<Rightarrow> [] | Some a \<Rightarrow> [Disconnect a])
     @ [Construct (length (observers st)), Observe (length (observers st)) n]"
  by (cases "a_observerRef h"; cases "current (a_observerRef h) st")
     (simp_all add: attach_def new_IntersectionObserver_def observe_def set_current_def
       disconnect_def current_def)

lemma attach_returns: "fst (attach h (Some n) st) = Some (a_observerRef h)"
  by (simp add: attach_def Let_def case_prod_beta)

lemma attach_other_fields:
  "lastItemIndex_current (snd (attach h node st)) = lastItemIndex_current st"
  "fetchNext_calls (snd (attach h node st)) = fetchNext_calls st"
  by (cases node; cases "a_observerRef h"; cases "current (a_observerRef h) st";
      simp add: attach_def new_IntersectionObserver_def observe_def set_current_def
       disconnect_def current_def)+

lemma current_cases:
  "current ItemObserver st = ItemObserver_current st"
  "current FallbackObserver st = fallbackObserver_current st"
  by (simp_all add: current_def)

lemma refs_valid_attach:
  assumes "refs_valid st"
  shows "refs_valid (snd (attach h node st))"
proof (cases node)
  case None
  then show ?thesis using assms by (simp add: attach_null)
next
  case (Some n)
  have len: "length (observers (snd (attach h (Some n) st))) = Suc (length (observers st))"
    by (simp add: attach_observers split: option.splits)
  have "case current r (snd (attach h (Some n) st)) of None \<Rightarrow> True
        | Some a \<Rightarrow> a < Suc (length (observers st))" for r
    using assms by (cases r) (auto simp: attach_current refs_valid_def current_cases split: option.splits)
  from this [of ItemObserver] this [of FallbackObserver] show ?thesis
    unfolding Some refs_valid_def len by (simp add: current_cases)
qed

lemma one_watch_attach:
  assumes "refs_valid st" and "one_watch_per_slot st"
  shows "one_watch_per_slot (snd (attach h node st))"
proof (cases node)
  case None
  then show ?thesis using assms by (simp add: attach_null)
next
  case (Some n)
  let ?st' = "snd (attach h (Some n) st)"
  have cur: "ItemObserver_current ?st' = current ItemObserver ?st'"
    "fallbackObserver_current ?st' = current FallbackObserver ?st'"
    by (simp_all add: current_cases)
  show ?thesis
    unfolding Some one_watch_per_slot_def cur attach_current
  proof (intro allI impI)
    fix a assume "a < length (observers ?st')"
    then have a: "a \<le> length (observers st)"
      by (simp add: attach_observers split: option.splits)
    show "length (ob_observed (observers ?st' ! a)) \<le> 1 \<and>
       (ob_observed (observers ?st' ! a) \<noteq> [] \<longrightarrow>
        (if ItemObserver = a_observerRef h then Some (length (observers st))
         else current ItemObserver st) = Some a \<or>
        (if FallbackObserver = a_observerRef h then Some (length (observers st))
         else current FallbackObserver st) = Some a)"
    proof (cases "a = length (observers st)")
      case True
      then show ?thesis
        by (cases "a_observerRef h") (simp_all add: attach_observers nth_append split: option.splits)
    next
      case False
      with a have lt: "a < length (observers st)" by simp
      from assms(2) lt have old: "length (ob_observed (observers st ! a)) \<le> 1"
        "ob_observed (observers st ! a) \<noteq> [] \<Longrightarrow>
           current ItemObserver st = Some a \<or> current FallbackObserver st = Some a"
        by (simp_all add: one_watch_per_slot_def current_cases)
      show ?thesis
      proof (cases "current (a_observerRef h) st")
        case None
        then have same: "observers ?st' ! a = observers st ! a"
          using lt by (simp add: attach_observers nth_append)
        show ?thesis unfolding same using old None
          by (cases "a_observerRef h") auto
      next
        case (Some b)
        show ?thesis
        proof (cases "a = b")
          case True
          then have "ob_observed (observers ?st' ! a) = []"
            using lt Some by (simp add: attach_observers nth_append)
          then show ?thesis by simp
        next
          case False
          then have same: "observers ?st' ! a = observers st ! a"
            using lt Some by (simp add: attach_observers nth_append)
          show ?thesis unfolding same using old Some False
            by (cases "a_observerRef h") auto
        qed
      qed
    qed
  qed
qed

lemma fetchOnScroll_Cons:
  "fetchOnScroll h (e # es) st =
     (if isIntersecting e \<and> h_fetchMore h then
        (if strict_eq (entryId_of e) (h_itemRefIndex h)
         then call_fetchNext h (st\<lparr>lastItemIndex_current := Some (entryId_of e)\<rparr>)
         else if strict_eq (entryId_of e) (h_fallBackRefIndex h)
                 \<and> \<not> opt_strict_eq (lastItemIndex_current st) (h_itemRefIndex h)
              then call_fetchNext h st
              else st)
      else st)"
  by (cases "entryId_of e"; cases "h_itemRefIndex h")
     (auto simp: fetchOnScroll_def entryId_of_def Let_def call_fetchNext_def)

lemma fetchOnScroll_Nil: "fetchOnScroll h [] st = st"
  by (simp add: fetchOnScroll_def)

lemma fetchOnScroll_observers:
  "observers (fetchOnScroll h es st) = observers st"
  "ItemObserver_current (fetchOnScroll h es st) = ItemObserver_current st"
  "fallbackObserver_current (fetchOnScroll h es st) = fallbackObserver_current st"
  "effects (fetchOnScroll h es st) = effects st"
  by (cases es; simp add: fetchOnScroll_Nil fetchOnScroll_Cons call_fetchNext_def)+

lemma cleanup_fields:
  "observers (cleanup r st) =
     (case current r st of None \<Rightarrow> observers st
      | Some a \<Rightarrow> (observers st)[a := (observers st ! a)\<lparr>ob_observed := []\<rparr>])"
  "ItemObserver_current (cleanup r st) = ItemObserver_current st"
  "fallbackObserver_current (cleanup r st) = fallbackObserver_current st"
  by (cases "current r st"; simp add: cleanup_def disconnect_def)+

lemma act_keeps_invariants:
  assumes "refs_valid st" and "one_watch_per_slot st"
  shows "refs_valid (act x st) \<and> one_watch_per_slot (act x st)"
proof (cases x)
  case (Attach h node)
  then show ?thesis using assms by (simp add: refs_valid_attach one_watch_attach)
next
  case (Cleanup r)
  have "refs_valid (cleanup r st)"
    using assms(1) by (simp add: refs_valid_def cleanup_fields split: option.splits)
  moreover have "one_watch_per_slot (cleanup r st)"
  proof (cases "current r st")
    case None
    then show ?thesis using assms(2) by (simp add: one_watch_per_slot_def cleanup_fields)
  next
    case (Some b)
    show ?thesis
      unfolding one_watch_per_slot_def cleanup_fields Some option.case
    proof (intro allI impI)
      fix a assume "a < length ((observers st)[b := (observers st ! b)\<lparr>ob_observed := []\<rparr>])"
      then have lt: "a < length (observers st)" by simp
      show "length (ob_observed ((observers st)[b := (observers st ! b)\<lparr>ob_observed := []\<rparr>] ! a)) \<le> 1 \<and>
         (ob_observed ((observers st)[b := (observers st ! b)\<lparr>ob_observed := []\<rparr>] ! a) \<noteq> [] \<longrightarrow>
          ItemObserver_current st = Some a \<or> fallbackObserver_current st = Some a)"
        using assms(2) lt by (cases "a = b") (simp_all add: one_watch_per_slot_def)
    qed
  qed
  ultimately show ?thesis using Cleanup by simp
next
  case (Intersect h es)
  then show ?thesis using assms
    by (simp add: refs_valid_def one_watch_per_slot_def fetchOnScroll_observers split: option.splits)
qed

lemma run_keeps_invariants:
  "refs_valid st \<Longrightarrow> one_watch_per_slot st \<Longrightarrow>
   refs_valid (run xs st) \<and> one_watch_per_slot (run xs st)"
proof (induction xs arbitrary: st)
  case Nil
  then show ?case by simp
next
  case (Cons x xs)
  from act_keeps_invariants [OF Cons.prems, of x] Cons.IH [of "act x st"]
  show ?case by simp
qed

lemma mounted_invariants: "refs_valid mounted" "one_watch_per_slot mounted"
  by (simp_all add: refs_valid_def one_watch_per_slot_def mounted_def)

lemma reachable_invariants:
  "refs_valid (run xs mounted)" "one_watch_per_slot (run xs mounted)"
  using run_keeps_invariants [OF mounted_invariants, of xs] by simp_all

lemma useIntersectionObserver_fresh:
  assumes "created_now prev r h"
  shows "fst (useIntersectionObserver p prev r h) =
           \<lparr>a_observerRef = r, a_iOCallback = h, a_threshold = threshold p, a_rootMargin = rootMargin p\<rparr>"
  using assms
  by (auto simp: useIntersectionObserver_def useMemo_def created_now_def split: option.splits)

section \<open>The test configuration, evaluated\<close>

lemma parseInt_examples:
  "parseInt ''9'' = Num 9" "parseInt ''7'' = Num 7" "parseInt ''7px'' = Num 7"
  "parseInt ''abc'' = NaN" "parseInt ''null'' = NaN" "parseInt ''0xg'' = NaN"
  "parseInt '' -12'' = Num (- 12)" "parseInt ''0x1F'' = Num 31"
  by (simp_all add: parseInt_def strip_sign_def strip_prefix_def is_StrWhiteSpaceChar_def
      radix_digit_def digit_value_def)

lemma parseInt_no_leading_digit:
  assumes "no_leading_digit s"
  shows "parseInt s = NaN"
proof -
  obtain sign t where st: "strip_sign (dropWhile is_StrWhiteSpaceChar s) = (sign, t)"
    by (cases "strip_sign (dropWhile is_StrWhiteSpaceChar s)")
  have zero: "radix_digit 10 CHR ''0''"
    by (simp add: radix_digit_def digit_value_def)
  from assms st have t: "case t of [] \<Rightarrow> True | c # _ \<Rightarrow> \<not> radix_digit 10 c"
    by (simp add: no_leading_digit_def)
  then have "strip_prefix t = (10, t)"
    using zero by (auto simp: strip_prefix_def split: list.splits)
  moreover from t have "takeWhile (radix_digit 10) t = []"
    by (cases t) simp_all
  ultimately show ?thesis
    by (simp add: parseInt_def st)
qed

lemma props10_fields:
  "fetchNext props10 = 0" "fetchMore props10 = Some True" "numberOfItems props10 = Num 10"
  "threshold props10 = None" "rootMargin props10 = None" "triggerPoint props10 = None"
  "triggerIndex props10 = None"
  by (simp_all add: props10_def)

lemma handler_of_examples:
  "handler_of props10 =
     \<lparr>h_fetchNext = 0, h_fetchMore = True, h_itemRefIndex = Num 9, h_fallBackRefIndex = Num 9\<rparr>"
  "handler_of (props10\<lparr>triggerPoint := Some TP75\<rparr>) =
     \<lparr>h_fetchNext = 0, h_fetchMore = True, h_itemRefIndex = Num 7, h_fallBackRefIndex = Num 9\<rparr>"
  "handler_of (props10\<lparr>fetchMore := Some False\<rparr>) =
     \<lparr>h_fetchNext = 0, h_fetchMore = False, h_itemRefIndex = Num 9, h_fallBackRefIndex = Num 9\<rparr>"
  by (simp_all add: handler_of_def resolved_index_def fetchMore_default_def
      triggerPoint_default_def fallBackRefIndex_of_def getTriggerPointValue_def props10_fields
      floor_rat_numeral round_binary64_examples)

lemma rendered_handler:
  "a_iOCallback (itemRef (fst (useFetchOnScroll p first_render))) = handler_of p"
  "a_iOCallback (fallbackRef (fst (useFetchOnScroll p first_render))) = handler_of p"
  by (simp_all add: render_result [OF memo_ok_first])

section \<open>The intersection handler\<close>

text \<open>
  C1. A call of the handler with a non-empty batch whose first entry is intersecting, with
  \<open>fetchMore\<close> true and the parsed \<open>data-id\<close> equal to \<open>itemRefIndex\<close>, stores that index in
  \<open>lastItemIndex\<close> and calls \<open>fetchNext\<close> exactly once. This holds for every handler, so
  also when \<open>itemRefIndex\<close> and \<open>fallBackRefIndex\<close> coincide: the stored index then equals
  \<open>itemRefIndex\<close> and the fallback test fails.
\<close>

theorem primary_fires_once:
  assumes "entries = e # es" and "isIntersecting e" and "h_fetchMore h"
    and "strict_eq (parseInt (ToString_attr (data_id e))) (h_itemRefIndex h)"
  shows "lastItemIndex_current (fetchOnScroll h entries st)
           = Some (parseInt (ToString_attr (data_id e)))
       \<and> opt_strict_eq (lastItemIndex_current (fetchOnScroll h entries st)) (h_itemRefIndex h)
       \<and> fetchNext_calls (fetchOnScroll h entries st) = fetchNext_calls st @ [h_fetchNext h]"
  using assms by (simp add: fetchOnScroll_Cons entryId_of_def call_fetchNext_def)

theorem primary_fires_once_witness:
  "h_itemRefIndex (a_iOCallback (itemRef (fst (useFetchOnScroll props10 first_render)))) = Num 9
   \<and> h_fallBackRefIndex (a_iOCallback (itemRef (fst (useFetchOnScroll props10 first_render)))) = Num 9
   \<and> lastItemIndex_current
        (fetchOnScroll (a_iOCallback (itemRef (fst (useFetchOnScroll props10 first_render))))
           [\<lparr>isIntersecting = True, data_id = Some ''9''\<rparr>] mounted) = Some (Num 9)
   \<and> fetchNext_calls
        (fetchOnScroll (a_iOCallback (itemRef (fst (useFetchOnScroll props10 first_render))))
           [\<lparr>isIntersecting = True, data_id = Some ''9''\<rparr>] mounted) = [0]"
proof -
  let ?h = "a_iOCallback (itemRef (fst (useFetchOnScroll props10 first_render)))"
  let ?e = "\<lparr>isIntersecting = True, data_id = Some ''9''\<rparr>"
  have h: "?h = \<lparr>h_fetchNext = 0, h_fetchMore = True, h_itemRefIndex = Num 9,
                  h_fallBackRefIndex = Num 9\<rparr>"
    by (simp add: rendered_handler handler_of_examples)
  have a: "isIntersecting ?e" by simp
  have b: "h_fetchMore ?h" by (simp add: h)
  have c: "strict_eq (parseInt (ToString_attr (data_id ?e))) (h_itemRefIndex ?h)"
    by (simp add: h ToString_attr_def parseInt_examples)
  from primary_fires_once [OF refl a b c, where es = "[]" and st = mounted] show ?thesis
    by (simp add: h ToString_attr_def parseInt_examples mounted_def)
qed

text \<open>
  C2. A call of the handler with \<open>fetchMore\<close> true and a first entry that is intersecting,
  whose parsed \<open>data-id\<close> equals \<open>fallBackRefIndex\<close> while \<open>lastItemIndex\<close> does not equal
  \<open>itemRefIndex\<close>, calls \<open>fetchNext\<close>, exactly once. The witness is the case of the spec:
  ten items and trigger point 75% give the indices 7 and 9, and an entry with identifier 9
  arriving before any primary firing calls \<open>fetchNext\<close> once.
\<close>

theorem fallback_fires:
  assumes "entries = e # es" and "isIntersecting e" and "h_fetchMore h"
    and "strict_eq (parseInt (ToString_attr (data_id e))) (h_fallBackRefIndex h)"
    and "\<not> opt_strict_eq (lastItemIndex_current st) (h_itemRefIndex h)"
  shows "fetchNext_calls (fetchOnScroll h entries st) = fetchNext_calls st @ [h_fetchNext h]"
  using assms by (simp add: fetchOnScroll_Cons entryId_of_def call_fetchNext_def)

theorem fallback_fires_witness:
  "itemRefIndex (fst (useFetchOnScroll (props10\<lparr>triggerPoint := Some TP75\<rparr>) first_render)) = Num 7
   \<and> fallBackRefIndex (fst (useFetchOnScroll (props10\<lparr>triggerPoint := Some TP75\<rparr>) first_render)) = Num 9
   \<and> lastItemIndex_current mounted = None
   \<and> fetchNext_calls
        (fetchOnScroll
           (a_iOCallback (fallbackRef (fst (useFetchOnScroll (props10\<lparr>triggerPoint := Some TP75\<rparr>) first_render))))
           [\<lparr>isIntersecting = True, data_id = Some ''9''\<rparr>] mounted) = [0]"
proof -
  let ?p = "props10\<lparr>triggerPoint := Some TP75\<rparr>"
  let ?h = "a_iOCallback (fallbackRef (fst (useFetchOnScroll ?p first_render)))"
  let ?e = "\<lparr>isIntersecting = True, data_id = Some ''9''\<rparr>"
  have h: "?h = \<lparr>h_fetchNext = 0, h_fetchMore = True, h_itemRefIndex = Num 7,
                  h_fallBackRefIndex = Num 9\<rparr>"
    by (simp add: rendered_handler handler_of_examples)
  have i: "itemRefIndex (fst (useFetchOnScroll ?p first_render)) = Num 7"
    "fallBackRefIndex (fst (useFetchOnScroll ?p first_render)) = Num 9"
    using handler_of_examples(2)
    by (simp_all add: render_result [OF memo_ok_first] handler_of_def)
  have a: "isIntersecting ?e" by simp
  have b: "h_fetchMore ?h" by (simp add: h)
  have c: "strict_eq (parseInt (ToString_attr (data_id ?e))) (h_fallBackRefIndex ?h)"
    by (simp add: h ToString_attr_def parseInt_examples)
  have d: "\<not> opt_strict_eq (lastItemIndex_current mounted) (h_itemRefIndex ?h)"
    by (simp add: mounted_def)
  from fallback_fires [OF refl a b c d, where es = "[]"] show ?thesis
    by (simp add: h i mounted_def)
qed

text \<open>
  C7. A call of the handler with an empty batch, or with a first entry that is not
  intersecting, or with \<open>fetchMore\<close> false, changes nothing: \<open>fetchNext\<close> is not called and
  \<open>lastItemIndex\<close> keeps its value.
\<close>

theorem gate_closed_no_fetch:
  assumes "case entries of [] \<Rightarrow> True | e # es \<Rightarrow> \<not> isIntersecting e \<or> \<not> h_fetchMore h"
  shows "fetchOnScroll h entries st = st"
  using assms by (cases entries) (auto simp: fetchOnScroll_Cons fetchOnScroll_Nil)

theorem gate_closed_no_fetch_witness:
  "fetchOnScroll (handler_of props10) [] mounted = mounted
   \<and> fetchOnScroll (handler_of props10) [\<lparr>isIntersecting = False, data_id = Some ''9''\<rparr>] mounted
       = mounted
   \<and> \<not> h_fetchMore (handler_of (props10\<lparr>fetchMore := Some False\<rparr>))
   \<and> fetchOnScroll (handler_of (props10\<lparr>fetchMore := Some False\<rparr>))
        [\<lparr>isIntersecting = True, data_id = Some ''9''\<rparr>] mounted = mounted"
  using gate_closed_no_fetch [where entries = "[]" and h = "handler_of props10" and st = mounted]
    gate_closed_no_fetch [where entries = "[\<lparr>isIntersecting = False, data_id = Some ''9''\<rparr>]"
      and h = "handler_of props10" and st = mounted]
    gate_closed_no_fetch [where entries = "[\<lparr>isIntersecting = True, data_id = Some ''9''\<rparr>]"
      and h = "handler_of (props10\<lparr>fetchMore := Some False\<rparr>)" and st = mounted]
  by (simp add: handler_of_examples)

text \<open>
  C10. Of a batch of two or more entries the handler reads the first only: the call does
  what it does on the first entry alone, and when the first entry is not intersecting, or
  its identifier matches neither \<open>itemRefIndex\<close> nor \<open>fallBackRefIndex\<close>, nothing happens,
  whatever the later entries are.
\<close>

theorem only_first_entry:
  assumes "es \<noteq> []"
  shows "fetchOnScroll h (e # es) st = fetchOnScroll h [e] st
       \<and> (if \<not> isIntersecting e
             \<or> (\<not> strict_eq (parseInt (ToString_attr (data_id e))) (h_itemRefIndex h)
                \<and> \<not> strict_eq (parseInt (ToString_attr (data_id e))) (h_fallBackRefIndex h))
           then fetchOnScroll h (e # es) st = st else True)"
  by (simp add: fetchOnScroll_Cons entryId_of_def)

theorem only_first_entry_witness:
  "fetchNext_calls
     (fetchOnScroll (handler_of (props10\<lparr>triggerPoint := Some TP75\<rparr>))
        [\<lparr>isIntersecting = False, data_id = Some ''7''\<rparr>,
         \<lparr>isIntersecting = True, data_id = Some ''7''\<rparr>] mounted) = []
   \<and> fetchNext_calls
       (fetchOnScroll (handler_of (props10\<lparr>triggerPoint := Some TP75\<rparr>))
          [\<lparr>isIntersecting = True, data_id = Some ''abc''\<rparr>,
           \<lparr>isIntersecting = True, data_id = Some ''9''\<rparr>] mounted) = []
   \<and> fetchNext_calls
       (fetchOnScroll (handler_of (props10\<lparr>triggerPoint := Some TP75\<rparr>))
          [\<lparr>isIntersecting = True, data_id = Some ''7''\<rparr>] mounted) = [0]"
proof -
  let ?h = "handler_of (props10\<lparr>triggerPoint := Some TP75\<rparr>)"
  have ne: "[\<lparr>isIntersecting = True, data_id = Some ''7''\<rparr>] \<noteq> []"
    "[\<lparr>isIntersecting = True, data_id = Some ''9''\<rparr>] \<noteq> []"
    by simp_all
  have one: "fetchNext_calls
       (fetchOnScroll ?h [\<lparr>isIntersecting = True, data_id = Some ''7''\<rparr>] mounted) = [0]"
    by (simp add: fetchOnScroll_Cons entryId_of_def handler_of_examples ToString_attr_def
        parseInt_examples call_fetchNext_def mounted_def)
  from only_first_entry [OF ne(1), where h = "?h" and st = mounted
        and e = "\<lparr>isIntersecting = False, data_id = Some ''7''\<rparr>", THEN conjunct2]
    only_first_entry [OF ne(2), where h = "?h" and st = mounted
        and e = "\<lparr>isIntersecting = True, data_id = Some ''abc''\<rparr>", THEN conjunct2]
    one
  show ?thesis
    by (simp add: handler_of_examples ToString_attr_def parseInt_examples mounted_def)
qed

text \<open>
  C9. Stated for every non-numeric identifier the property fails: \<open>parseInt\<close> reads a leading
  run of digits and drops the rest, so the identifier \<open>7px\<close> parses to 7 and fires the
  primary branch. What holds: when the identifier has no number to read, the parse yields
  \<open>NaN\<close>, which equals neither index, and the call changes nothing: no \<open>fetchNext\<close>,
  \<open>lastItemIndex\<close> as before, and there is no error to raise. That is the case when the
  attribute is missing or when, after white space and an optional sign, its text does not
  start with a decimal digit (as \<open>abc\<close>), and for a bare \<open>0x\<close> prefix.
\<close>

theorem unparsable_id_ignored:
  assumes "isIntersecting e" and "h_fetchMore h"
    and "no_leading_digit (ToString_attr (data_id e))
         \<or> parseInt (ToString_attr (data_id e)) = NaN"
  shows "parseInt (ToString_attr (data_id e)) = NaN
       \<and> \<not> strict_eq (parseInt (ToString_attr (data_id e))) (h_itemRefIndex h)
       \<and> \<not> strict_eq (parseInt (ToString_attr (data_id e))) (h_fallBackRefIndex h)
       \<and> fetchOnScroll h (e # es) st = st"
proof -
  from assms(3) have "parseInt (ToString_attr (data_id e)) = NaN"
    by (auto dest: parseInt_no_leading_digit)
  then show ?thesis
    using assms(1,2) by (simp add: fetchOnScroll_Cons entryId_of_def)
qed

theorem unparsable_id_ignored_witness:
  "no_leading_digit (ToString_attr (Some ''abc''))
   \<and> no_leading_digit (ToString_attr None)
   \<and> parseInt (ToString_attr (Some ''0xg'')) = NaN
   \<and> fetchOnScroll (handler_of props10) [\<lparr>isIntersecting = True, data_id = Some ''abc''\<rparr>] mounted
       = mounted
   \<and> fetchOnScroll (handler_of props10) [\<lparr>isIntersecting = True, data_id = None\<rparr>] mounted
       = mounted
   \<and> fetchOnScroll (handler_of props10) [\<lparr>isIntersecting = True, data_id = Some ''0xg''\<rparr>] mounted
       = mounted"
proof -
  let ?h = "handler_of props10"
  have b: "h_fetchMore ?h" by (simp add: handler_of_examples)
  have n: "no_leading_digit (ToString_attr (Some ''abc''))" "no_leading_digit (ToString_attr None)"
    by (simp_all add: no_leading_digit_def ToString_attr_def strip_sign_def
        is_StrWhiteSpaceChar_def radix_digit_def digit_value_def)
  have x: "parseInt (ToString_attr (Some ''0xg'')) = NaN"
    by (simp add: ToString_attr_def parseInt_examples)
  from unparsable_id_ignored
      [where e = "\<lparr>isIntersecting = True, data_id = Some ''abc''\<rparr>" and h = "?h"
         and es = "[]" and st = mounted]
    unparsable_id_ignored
      [where e = "\<lparr>isIntersecting = True, data_id = None\<rparr>" and h = "?h"
         and es = "[]" and st = mounted]
    unparsable_id_ignored
      [where e = "\<lparr>isIntersecting = True, data_id = Some ''0xg''\<rparr>" and h = "?h"
         and es = "[]" and st = mounted]
    b n x
  show ?thesis by simp
qed

theorem non_numeric_id_fires_counterexample:
  "\<not> list_all (radix_digit 10) ''7px''
   \<and> parseInt (ToString_attr (Some ''7px'')) = Num 7
   \<and> fetchNext_calls
       (fetchOnScroll
          (a_iOCallback (itemRef (fst (useFetchOnScroll (props10\<lparr>triggerPoint := Some TP75\<rparr>) first_render))))
          [\<lparr>isIntersecting = True, data_id = Some ''7px''\<rparr>] mounted) = [0]
   \<and> lastItemIndex_current
       (fetchOnScroll
          (a_iOCallback (itemRef (fst (useFetchOnScroll (props10\<lparr>triggerPoint := Some TP75\<rparr>) first_render))))
          [\<lparr>isIntersecting = True, data_id = Some ''7px''\<rparr>] mounted) = Some (Num 7)"
  by (simp add: rendered_handler handler_of_examples fetchOnScroll_Cons entryId_of_def
      ToString_attr_def parseInt_examples call_fetchNext_def mounted_def radix_digit_def
      digit_value_def)

section \<open>Trigger-index resolution\<close>




text \<open>
  C4. In every render, a supplied and truthy \<open>triggerIndex\<close> makes \<open>itemRefIndex\<close> its
  floor, whatever the trigger point and the item count are (nothing is clamped); a
  \<open>triggerIndex\<close> that is 0 or absent leaves the value of the trigger point.
\<close>

theorem trigger_index_override:
  "(triggerIndex p = Some (Num t) \<and> t \<noteq> 0 \<longrightarrow>
        itemRefIndex (fst (useFetchOnScroll p (renders ps first_render))) = Num (of_int \<lfloor>t\<rfloor>))
   \<and> (triggerIndex p = None \<or> triggerIndex p = Some (Num 0) \<longrightarrow>
        itemRefIndex (fst (useFetchOnScroll p (renders ps first_render)))
          = getTriggerPointValue (triggerPoint_default p) (numberOfItems p))"
  by (auto simp: render_result(1) [OF history_memo_ok] resolved_index_def)

theorem trigger_index_override_witness:
  "itemRefIndex (fst (useFetchOnScroll
       (props10\<lparr>triggerPoint := Some TP50, triggerIndex := Some (Num (51 / 2))\<rparr>)
       (renders [props10] first_render))) = Num 25
   \<and> itemRefIndex (fst (useFetchOnScroll
       (props10\<lparr>triggerPoint := Some TP50, triggerIndex := Some (Num 0)\<rparr>)
       (renders [props10] first_render))) = Num 5
   \<and> itemRefIndex (fst (useFetchOnScroll
       (props10\<lparr>triggerPoint := Some TP50\<rparr>) (renders [props10] first_render))) = Num 5"
  using trigger_index_override
      [where p = "props10\<lparr>triggerPoint := Some TP50, triggerIndex := Some (Num (51 / 2))\<rparr>"
         and t = "51 / 2" and ps = "[props10]"]
    trigger_index_override
      [where p = "props10\<lparr>triggerPoint := Some TP50, triggerIndex := Some (Num 0)\<rparr>"
         and t = 1 and ps = "[props10]"]
    trigger_index_override
      [where p = "props10\<lparr>triggerPoint := Some TP50\<rparr>" and t = 1 and ps = "[props10]"]
  by (simp add: props10_fields triggerPoint_default_def getTriggerPointValue_def
      floor_rat_numeral round_binary64_examples)




section \<open>Observers and attachment\<close>

lemma shares_observer_iff:
  "shares_observer p =
     (triggerPoint_default p = TP100 \<or> opt_strict_eq (triggerIndex p) (fallBackRefIndex_of p))"
  by (cases "triggerPoint_default p") (simp_all add: shares_observer_def tp_string_def str_truthy_def)

lemma attach_cells:
  "ItemObserver_current (snd (attach h (Some n) st)) =
     (if a_observerRef h = ItemObserver then Some (length (observers st))
      else ItemObserver_current st)"
  "fallbackObserver_current (snd (attach h (Some n) st)) =
     (if a_observerRef h = FallbackObserver then Some (length (observers st))
      else fallbackObserver_current st)"
  using attach_current [of ItemObserver h n st] attach_current [of FallbackObserver h n st]
  by (auto simp: current_cases)

lemma first_render_fields:
  "memo_itemRefIndex first_render = None" "memo_fetchOnScroll first_render = None"
  "memo_itemRef first_render = None" "memo_fallbackRef first_render = None"
  by (simp_all add: first_render_def)

lemma memo_options_kept:
  assumes "memo_ok m"
    and "case memo_itemRef m of None \<Rightarrow> True
         | Some (d, a) \<Rightarrow> a_threshold a = threshold p \<and> a_rootMargin a = rootMargin p"
    and "case memo_fallbackRef m of None \<Rightarrow> True
         | Some (d, a) \<Rightarrow> a_threshold a = threshold p \<and> a_rootMargin a = rootMargin p"
  shows "a_threshold (itemRef (fst (useFetchOnScroll p m))) = threshold p"
    and "a_rootMargin (itemRef (fst (useFetchOnScroll p m))) = rootMargin p"
    and "a_threshold (fallbackRef (fst (useFetchOnScroll p m))) = threshold p"
    and "a_rootMargin (fallbackRef (fst (useFetchOnScroll p m))) = rootMargin p"
    and "case memo_itemRef (snd (useFetchOnScroll p m)) of None \<Rightarrow> True
         | Some (d, a) \<Rightarrow> a_threshold a = threshold p \<and> a_rootMargin a = rootMargin p"
    and "case memo_fallbackRef (snd (useFetchOnScroll p m)) of None \<Rightarrow> True
         | Some (d, a) \<Rightarrow> a_threshold a = threshold p \<and> a_rootMargin a = rootMargin p"
  using assms(2,3) unfolding render_unfold [OF assms(1)]
  by (auto simp: useIntersectionObserver_def useMemo_def split: option.splits)

lemma renders_options_kept:
  assumes "memo_ok m"
    and "case memo_itemRef m of None \<Rightarrow> True | Some (d, a) \<Rightarrow> a_threshold a = th \<and> a_rootMargin a = rm"
    and "case memo_fallbackRef m of None \<Rightarrow> True | Some (d, a) \<Rightarrow> a_threshold a = th \<and> a_rootMargin a = rm"
    and "\<forall>q \<in> set ps. threshold q = th \<and> rootMargin q = rm"
  shows "(case memo_itemRef (renders ps m) of None \<Rightarrow> True
          | Some (d, a) \<Rightarrow> a_threshold a = th \<and> a_rootMargin a = rm)
       \<and> (case memo_fallbackRef (renders ps m) of None \<Rightarrow> True
          | Some (d, a) \<Rightarrow> a_threshold a = th \<and> a_rootMargin a = rm)"
  using assms
proof (induction ps arbitrary: m)
  case Nil
  then show ?case by simp
next
  case (Cons q qs)
  from Cons.prems(4) have q: "threshold q = th" "rootMargin q = rm"
    and qs: "\<forall>q \<in> set qs. threshold q = th \<and> rootMargin q = rm"
    by simp_all
  have a: "case memo_itemRef m of None \<Rightarrow> True
         | Some (d, a) \<Rightarrow> a_threshold a = threshold q \<and> a_rootMargin a = rootMargin q"
    and b: "case memo_fallbackRef m of None \<Rightarrow> True
         | Some (d, a) \<Rightarrow> a_threshold a = threshold q \<and> a_rootMargin a = rootMargin q"
    unfolding q by (rule Cons.prems(2)) (rule Cons.prems(3))
  from memo_options_kept(5,6) [OF Cons.prems(1) a b]
  show ?case
    unfolding q renders.simps
    by (intro Cons.IH [OF render_memo_ok [OF Cons.prems(1)] _ _ qs])
qed

text \<open>
  What an attachment does, for every attachment and every state a mounted hook can reach:
  called with an element, it first disconnects the observer its ref cell holds (if any),
  then constructs a new observer with its handler and the threshold and root margin it
  carries, stores it in the cell and lets it observe the element; before and after, no
  observer watches two elements and every watching observer is the one its cell holds.
\<close>

lemma attach_disconnects_then_observes:
  "effects (snd (attach h (Some n) (run xs mounted))) =
     effects (run xs mounted)
     @ (case current (a_observerRef h) (run xs mounted) of None \<Rightarrow> [] | Some a \<Rightarrow> [Disconnect a])
     @ [Construct (length (observers (run xs mounted))),
        Observe (length (observers (run xs mounted))) n]
   \<and> (case current (a_observerRef h) (run xs mounted) of
         None \<Rightarrow> True
       | Some a \<Rightarrow> a < length (observers (run xs mounted))
           \<and> ob_observed (observers (snd (attach h (Some n) (run xs mounted))) ! a) = [])
   \<and> current (a_observerRef h) (snd (attach h (Some n) (run xs mounted)))
       = Some (length (observers (run xs mounted)))
   \<and> observers (snd (attach h (Some n) (run xs mounted))) ! length (observers (run xs mounted))
       = \<lparr>ob_callback = a_iOCallback h, ob_threshold = a_threshold h,
          ob_rootMargin = a_rootMargin h, ob_observed = [n]\<rparr>
   \<and> one_watch_per_slot (run xs mounted)
   \<and> one_watch_per_slot (snd (attach h (Some n) (run xs mounted)))"
proof -
  let ?st = "run xs mounted"
  let ?st' = "snd (attach h (Some n) ?st)"
  have valid: "refs_valid ?st" and one: "one_watch_per_slot ?st"
    by (rule reachable_invariants)+
  have one': "one_watch_per_slot ?st'"
    using one_watch_attach [OF valid one] .
  have old: "case current (a_observerRef h) ?st of
         None \<Rightarrow> True
       | Some a \<Rightarrow> a < length (observers ?st) \<and> ob_observed (observers ?st' ! a) = []"
  proof (cases "current (a_observerRef h) ?st")
    case None
    then show ?thesis by simp
  next
    case (Some a)
    then have "a < length (observers ?st)"
      using valid by (cases "a_observerRef h") (simp_all add: refs_valid_def current_cases)
    then show ?thesis
      by (simp add: Some attach_observers nth_append)
  qed
  have new: "observers ?st' ! length (observers ?st)
       = \<lparr>ob_callback = a_iOCallback h, ob_threshold = a_threshold h,
          ob_rootMargin = a_rootMargin h, ob_observed = [n]\<rparr>"
    by (simp add: attach_observers nth_append split: option.splits)
  show ?thesis
    using attach_effects_eq [of h n ?st] old attach_current [of "a_observerRef h" h n ?st]
      new one one'
    by (intro conjI) simp_all
qed

text \<open>
  An attachment that \<open>useCallback\<close> builds in a render carries the ref cell, the handler,
  the threshold and the root margin of that render.
\<close>

lemma rebuilt_attachment:
  "created_now (memo_itemRef (renders ps first_render)) (ItemObserver_of p) (handler_of p) \<Longrightarrow>
     itemRef (fst (useFetchOnScroll p (renders ps first_render)))
       = \<lparr>a_observerRef = ItemObserver_of p, a_iOCallback = handler_of p,
          a_threshold = threshold p, a_rootMargin = rootMargin p\<rparr>"
  "created_now (memo_fallbackRef (renders ps first_render)) FallbackObserver (handler_of p) \<Longrightarrow>
     fallbackRef (fst (useFetchOnScroll p (renders ps first_render)))
       = \<lparr>a_observerRef = FallbackObserver, a_iOCallback = handler_of p,
          a_threshold = threshold p, a_rootMargin = rootMargin p\<rparr>"
  by (simp_all add: render_unfold [OF history_memo_ok] useIntersectionObserver_fresh)

text \<open>
  While threshold and root margin have been the same in every render since the hook was
  mounted, the attachments carry them.
\<close>

lemma unchanged_options_carried:
  assumes "\<forall>q \<in> set ps. threshold q = threshold p \<and> rootMargin q = rootMargin p"
  shows "a_threshold (itemRef (fst (useFetchOnScroll p (renders ps first_render)))) = threshold p"
    and "a_rootMargin (itemRef (fst (useFetchOnScroll p (renders ps first_render)))) = rootMargin p"
    and "a_threshold (fallbackRef (fst (useFetchOnScroll p (renders ps first_render)))) = threshold p"
    and "a_rootMargin (fallbackRef (fst (useFetchOnScroll p (renders ps first_render)))) = rootMargin p"
proof -
  have kept: "(case memo_itemRef (renders ps first_render) of None \<Rightarrow> True
          | Some (d, a) \<Rightarrow> a_threshold a = threshold p \<and> a_rootMargin a = rootMargin p)
       \<and> (case memo_fallbackRef (renders ps first_render) of None \<Rightarrow> True
          | Some (d, a) \<Rightarrow> a_threshold a = threshold p \<and> a_rootMargin a = rootMargin p)"
    by (rule renders_options_kept [OF memo_ok_first _ _ assms])
       (simp_all add: first_render_def)
  note all = memo_options_kept(1-4) [OF history_memo_ok conjunct1 [OF kept] conjunct2 [OF kept]]
  show "a_threshold (itemRef (fst (useFetchOnScroll p (renders ps first_render)))) = threshold p"
    and "a_rootMargin (itemRef (fst (useFetchOnScroll p (renders ps first_render)))) = rootMargin p"
    and "a_threshold (fallbackRef (fst (useFetchOnScroll p (renders ps first_render)))) = threshold p"
    and "a_rootMargin (fallbackRef (fst (useFetchOnScroll p (renders ps first_render)))) = rootMargin p"
    by (rule all)+
qed

text \<open>Reattaching another element to a slot that is watching, on the 75% configuration.\<close>

lemma reattach_example:
  "effects (run [Attach \<lparr>a_observerRef = ItemObserver,
                 a_iOCallback = \<lparr>h_fetchNext = 0, h_fetchMore = True, h_itemRefIndex = Num 7,
                                  h_fallBackRefIndex = Num 9\<rparr>,
                 a_threshold = Some (Num (1 / 2)), a_rootMargin = Some ''10px''\<rparr> (Some 7),
               Attach \<lparr>a_observerRef = ItemObserver,
                 a_iOCallback = \<lparr>h_fetchNext = 0, h_fetchMore = True, h_itemRefIndex = Num 7,
                                  h_fallBackRefIndex = Num 9\<rparr>,
                 a_threshold = Some (Num (1 / 2)), a_rootMargin = Some ''10px''\<rparr> (Some 8)]
          mounted)
     = [Construct 0, Observe 0 7, Disconnect 0, Construct 1, Observe 1 8]
   \<and> map ob_observed (observers (run [Attach \<lparr>a_observerRef = ItemObserver,
                 a_iOCallback = \<lparr>h_fetchNext = 0, h_fetchMore = True, h_itemRefIndex = Num 7,
                                  h_fallBackRefIndex = Num 9\<rparr>,
                 a_threshold = Some (Num (1 / 2)), a_rootMargin = Some ''10px''\<rparr> (Some 7),
               Attach \<lparr>a_observerRef = ItemObserver,
                 a_iOCallback = \<lparr>h_fetchNext = 0, h_fetchMore = True, h_itemRefIndex = Num 7,
                                  h_fallBackRefIndex = Num 9\<rparr>,
                 a_threshold = Some (Num (1 / 2)), a_rootMargin = Some ''10px''\<rparr> (Some 8)]
          mounted))
     = [[], [8]]"
  by (simp add: attach_def new_IntersectionObserver_def observe_def set_current_def
      disconnect_def current_def mounted_def)

text \<open>
  C8. An attachment called with an element disconnects the observer of its slot before it
  constructs, stores and starts the new one, as the lemmas above show; the new observer is
  to carry the threshold and root margin of the current configuration. It does not always:
  the dependency list of the attachment names the ref cell and the handler, but not
  \<open>threshold\<close> and \<open>rootMargin\<close>, which the closure captures as well. After a render with
  threshold 0.5 and a render with threshold 0.9 that changes nothing else, the second
  render returns the attachment of the first, and the observer it constructs has the
  threshold 0.5.
\<close>

theorem stale_threshold_after_rerender:
  "threshold (props10\<lparr>threshold := Some (Num (9 / 10))\<rparr>) = Some (Num (9 / 10))
   \<and> ob_threshold
       (observers
          (snd (attach
             (itemRef (fst (useFetchOnScroll (props10\<lparr>threshold := Some (Num (9 / 10))\<rparr>)
                (renders [props10\<lparr>threshold := Some (Num (1 / 2))\<rparr>] first_render))))
             (Some 9) mounted)) ! 0)
     = Some (Num (1 / 2))"
proof -
  let ?p1 = "props10\<lparr>threshold := Some (Num (1 / 2))\<rparr>"
  let ?p2 = "props10\<lparr>threshold := Some (Num (9 / 10))\<rparr>"
  have same: "ItemObserver_of ?p2 = ItemObserver_of ?p1" "handler_of ?p2 = handler_of ?p1"
    by (simp_all add: ItemObserver_of_def shares_observer_def handler_of_def resolved_index_def
        fetchMore_default_def triggerPoint_default_def fallBackRefIndex_of_def props10_fields)
  have first: "memo_itemRef (snd (useFetchOnScroll ?p1 first_render))
      = Some ((ItemObserver_of ?p1, handler_of ?p1),
              \<lparr>a_observerRef = ItemObserver_of ?p1, a_iOCallback = handler_of ?p1,
               a_threshold = Some (Num (1 / 2)), a_rootMargin = None\<rparr>)"
    by (simp add: render_unfold [OF memo_ok_first] useIntersectionObserver_def useMemo_def
        first_render_fields props10_fields)
  have kept: "itemRef (fst (useFetchOnScroll ?p2 (renders [?p1] first_render)))
      = \<lparr>a_observerRef = ItemObserver_of ?p1, a_iOCallback = handler_of ?p1,
         a_threshold = Some (Num (1 / 2)), a_rootMargin = None\<rparr>"
    by (simp add: render_unfold [OF render_memo_ok [OF memo_ok_first]] first same
        useIntersectionObserver_def useMemo_def)
  show ?thesis
    unfolding kept by (simp add: attach_observers mounted_def current_def split: observer_ref.splits)
qed

text \<open>
  C6. The hook lets the primary slot use the fallback's ref cell when the trigger point is
  100% (also by default) or \<open>triggerIndex\<close> strictly equals the last index. That is not
  the resolved index being the last index: with ten items and \<open>triggerIndex\<close> 3 and no
  trigger point, the resolved index is 3 and the last index is 9, yet both slots share one
  cell, so attaching the fallback element disconnects the observer of the primary element
  and only element 9 stays watched. Conversely, two items with trigger point 50% resolve
  to the last index 1 and the slots keep distinct cells.
\<close>

theorem shared_cell_despite_distinct_index:
  "itemRefIndex (fst (useFetchOnScroll (props10\<lparr>triggerIndex := Some (Num 3)\<rparr>) first_render)) = Num 3
   \<and> fallBackRefIndex (fst (useFetchOnScroll (props10\<lparr>triggerIndex := Some (Num 3)\<rparr>) first_render)) = Num 9
   \<and> a_observerRef (itemRef (fst (useFetchOnScroll (props10\<lparr>triggerIndex := Some (Num 3)\<rparr>) first_render)))
       = FallbackObserver
   \<and> a_observerRef (fallbackRef (fst (useFetchOnScroll (props10\<lparr>triggerIndex := Some (Num 3)\<rparr>) first_render)))
       = FallbackObserver
   \<and> map ob_observed
       (observers
          (run [Attach (itemRef (fst (useFetchOnScroll (props10\<lparr>triggerIndex := Some (Num 3)\<rparr>) first_render))) (Some 3),
                Attach (fallbackRef (fst (useFetchOnScroll (props10\<lparr>triggerIndex := Some (Num 3)\<rparr>) first_render))) (Some 9)]
             mounted))
       = [[], [9]]
   \<and> itemRefIndex (fst (useFetchOnScroll (props10\<lparr>numberOfItems := Num 2, triggerPoint := Some TP50\<rparr>) first_render)) = Num 1
   \<and> fallBackRefIndex (fst (useFetchOnScroll (props10\<lparr>numberOfItems := Num 2, triggerPoint := Some TP50\<rparr>) first_render)) = Num 1
   \<and> a_observerRef (itemRef (fst (useFetchOnScroll (props10\<lparr>numberOfItems := Num 2, triggerPoint := Some TP50\<rparr>) first_render)))
       = ItemObserver
   \<and> a_observerRef (fallbackRef (fst (useFetchOnScroll (props10\<lparr>numberOfItems := Num 2, triggerPoint := Some TP50\<rparr>) first_render)))
       = FallbackObserver"
proof -
  let ?p = "props10\<lparr>triggerIndex := Some (Num 3)\<rparr>"
  let ?q = "props10\<lparr>numberOfItems := Num 2, triggerPoint := Some TP50\<rparr>"
  have p: "resolved_index ?p = Num 3" "fallBackRefIndex_of ?p = Num 9"
    "ItemObserver_of ?p = FallbackObserver"
    by (simp_all add: ItemObserver_of_def shares_observer_iff resolved_index_def
        triggerPoint_default_def fallBackRefIndex_of_def props10_fields
        round_binary64_examples)
  have q: "resolved_index ?q = Num 1" "fallBackRefIndex_of ?q = Num 1"
    "ItemObserver_of ?q = ItemObserver"
    by (simp_all add: ItemObserver_of_def shares_observer_iff resolved_index_def
        triggerPoint_default_def fallBackRefIndex_of_def getTriggerPointValue_def
        props10_fields round_binary64_examples)
  have refs: "a_observerRef (itemRef (fst (useFetchOnScroll ?p first_render))) = FallbackObserver"
    "a_observerRef (fallbackRef (fst (useFetchOnScroll ?p first_render))) = FallbackObserver"
    by (simp_all add: render_result [OF memo_ok_first] p)
  have watched: "map ob_observed
       (observers (run [Attach (itemRef (fst (useFetchOnScroll ?p first_render))) (Some 3),
                        Attach (fallbackRef (fst (useFetchOnScroll ?p first_render))) (Some 9)]
             mounted)) = [[], [9]]"
    by (simp add: attach_observers attach_cells refs current_cases mounted_def)
  show ?thesis
    using watched by (simp add: render_result [OF memo_ok_first] p q)
qed

end
